theory Spec2Isabelle
  imports Main "HOL-Library.Word"
begin

section \<open>Data model of \<open>client.go\<close>\<close>

text \<open>
  Go's \<open>int64\<close> is a 64-bit word: \<open>+\<close> wraps around, \<open>>=\<close> is the signed
  comparison \<open><=s\<close> read from right to left. \<open>uint\<close> is taken at 64 bits (its width on
  the 64-bit platforms); the conversion \<open>int64(c.refresh)\<close> keeps the bits and is
  \<open>ucast\<close>. A \<open>[]byte\<close> and a Go \<open>string\<close> are both a \<open>string\<close> here, so
  \<open>[]byte(jwtString)\<close> is the identity; a slice that may be \<open>nil\<close> is an
  \<open>option\<close>.
\<close>

type_synonym int64 = "64 word"
type_synonym uint = "64 word"
type_synonym bytes = string

text \<open>
  Error values. \<open>Errno\<close> stands for an error made by a library outside this package
  (\<open>os\<close>, \<open>ioutil\<close>, \<open>jwt\<close>, \<open>erfcommon\<close>), named by its message. The other
  three are the constructors of \<open>github.com/pkg/errors\<close> that \<open>client.go\<close> calls:
  \<open>errors.New\<close>, \<open>errors.Wrap\<close> and \<open>errors.WithMessage\<close>.
\<close>

datatype error =
    Errno string
  | New string
  | Wrap error string
  | WithMessage error string

text \<open>
  A nil pointer dereference panics: such a call neither returns a value nor an error.
\<close>

datatype 'a outcome = Panic | Ret 'a

text \<open>
  \<open>erf.ErfClaims\<close>: every field is a pointer (\<open>erf.Int64Ptr\<close>, \<open>erf.StringPtr\<close>,
  and the dereferences \<open>*c.claims.ExpiresAt\<close>), so every field may be \<open>nil\<close>.
\<close>

record ErfClaims =
  IssuedAt :: "int64 option"
  ExpiresAt :: "int64 option"
  Subject :: "string option"
  SequenceNo :: "int64 option"
  Previous :: "string option"

text \<open>
  The struct \<open>client\<close>. \<open>file\<close> is a keyword of Isabelle, so that field is
  \<open>file'\<close>. The field \<open>clock\<close> is a handle on the time source, which lives in the
  world below.
\<close>

record client =
  file' :: string
  refresh :: uint
  claims :: "ErfClaims option"
  jwt :: "bytes option"

section \<open>The collaborators outside the package\<close>

text \<open>
  The claims transport is not part of this repository and is a parameter of the model.
  \<open>ParseToken\<close> is \<open>erf.ParseToken\<close>: an error, or the token's \<open>Valid\<close> flag and the
  decoded claims. \<open>SignedString\<close> is
  \<open>jwt.NewWithClaims(jwt.SigningMethodNone, _).SignedString(jwt.UnsafeAllowNoneSignatureType)\<close>:
  an error or the encoded token.
\<close>

record codec =
  ParseToken :: "bytes \<Rightarrow> error + (bool \<times> ErfClaims)"
  SignedString :: "ErfClaims \<Rightarrow> error + string"

text \<open>
  What a path holds, as \<open>os.Stat\<close> and \<open>ioutil.ReadFile\<close> see it: nothing
  (\<open>os.IsNotExist\<close>), something \<open>os.Stat\<close> fails on for another reason, a file that
  \<open>ioutil.ReadFile\<close> fails on, or a file with its bytes.
\<close>

datatype node = Absent | StatFails error | ReadFails error | File bytes

text \<open>
  What \<open>ioutil.WriteFile\<close> will do at a path: succeed; fail to open the file (nothing
  changes on disk, as when the parent directory is missing or the file is read-only); or
  open and truncate it and fail after writing only a prefix of the data. The permission
  bits \<open>0600\<close> of a created file are not part of the model.
\<close>

datatype wplan = WriteOk | OpenFails error | WriteFails error nat

text \<open>
  The world around the client: the file system, the clock (\<open>clock_at w n\<close> is the value
  of the \<open>n\<close>-th call of \<open>clock.Now().Unix()\<close>, \<open>ticks\<close> counts the calls made) and
  the identifier generator (\<open>uuid_at w n\<close> is the \<open>n\<close>-th \<open>uuid.NewV4().String()\<close>,
  \<open>drawn\<close> counts the identifiers drawn).
\<close>

record world =
  nodes :: "string \<Rightarrow> node"
  writes :: "string \<Rightarrow> wplan"
  clock_at :: "nat \<Rightarrow> int64"
  ticks :: nat
  uuid_at :: "nat \<Rightarrow> string"
  drawn :: nat

definition Now :: "world \<Rightarrow> int64 \<times> world" where
  "Now w = (clock_at w (ticks w), w\<lparr>ticks := Suc (ticks w)\<rparr>)"

definition NewV4 :: "world \<Rightarrow> string \<times> world" where
  "NewV4 w = (uuid_at w (drawn w), w\<lparr>drawn := Suc (drawn w)\<rparr>)"

definition WriteFile :: "world \<Rightarrow> string \<Rightarrow> bytes \<Rightarrow> error option \<times> world" where
  "WriteFile w name data =
     (case writes w name of
        OpenFails err \<Rightarrow> (Some err, w)
      | WriteFails err n \<Rightarrow> (Some err, w\<lparr>nodes := (nodes w)(name := File (take n data))\<rparr>)
      | WriteOk \<Rightarrow> (None, w\<lparr>nodes := (nodes w)(name := File data)\<rparr>))"

section \<open>The functions of \<open>client.go\<close>\<close>

text \<open>
  \<open>readFile\<close> (lines 102-115): \<open>nil, nil\<close> when the file does not exist, the error of
  \<open>os.Stat\<close> or of \<open>ioutil.ReadFile\<close>, or the bytes. \<open>ioutil.ReadFile\<close> returns a
  non-nil slice for a file that exists, also for one of length zero.
\<close>

definition readFile :: "world \<Rightarrow> string \<Rightarrow> error + bytes option" where
  "readFile w name =
     (case nodes w name of
        Absent \<Rightarrow> Inr None
      | StatFails err \<Rightarrow> Inl err
      | ReadFails err \<Rightarrow> Inl err
      | File bs \<Rightarrow> Inr (Some bs))"

text \<open>
  \<open>persistNewToken\<close> (lines 118-148). The result is the returned error (\<open>None\<close> for
  \<open>nil\<close>), the client and the world after the call. The clock is read first, then the
  identifier is drawn; \<open>*c.claims.SequenceNo\<close> and \<open>*c.claims.Subject\<close> panic on a
  nil field.
\<close>

definition persistNewToken ::
  "codec \<Rightarrow> client \<Rightarrow> world \<Rightarrow> (error option \<times> client \<times> world) outcome" where
  "persistNewToken cd c w =
     (let (now, w1) = Now w;
          (sub, w2) = NewV4 w1;
          newClaims = \<lparr>IssuedAt = Some now,
                       ExpiresAt = Some (now + ucast (refresh c)),
                       Subject = Some sub,
                       SequenceNo = Some 0,
                       Previous = Some ''''\<rparr>
      in case (case claims c of
                 None \<Rightarrow> Ret newClaims
               | Some old \<Rightarrow>
                   (case SequenceNo old of
                      None \<Rightarrow> Panic
                    | Some s \<Rightarrow>
                        (case Subject old of
                           None \<Rightarrow> Panic
                         | Some p \<Rightarrow>
                             Ret (newClaims\<lparr>SequenceNo := Some (s + 1),
                                             Previous := Some p\<rparr>)))) of
           Panic \<Rightarrow> Panic
         | Ret newClaims' \<Rightarrow>
             (case SignedString cd newClaims' of
                Inl err \<Rightarrow> Ret (Some (WithMessage err ''failed to create token''), c, w2)
              | Inr jwtString \<Rightarrow>
                  (case WriteFile w2 (file' c) jwtString of
                     (Some err, w3) \<Rightarrow> Ret (Some err, c, w3)
                   | (None, w3) \<Rightarrow>
                       Ret (None, c\<lparr>claims := Some newClaims', jwt := Some jwtString\<rparr>, w3))))"

text \<open>
  The first block of \<open>Token\<close> (lines 69-89): with nothing cached, read the file and, when
  there are bytes, parse them and cache bytes and claims. It returns the error that
  \<open>Token\<close> returns, or the client as it is after the block.
\<close>

definition loadCached :: "codec \<Rightarrow> client \<Rightarrow> world \<Rightarrow> error + client" where
  "loadCached cd c w =
     (case claims c of
        Some _ \<Rightarrow> Inr c
      | None \<Rightarrow>
          (case readFile w (file' c) of
             Inl err \<Rightarrow> Inl (Wrap err ''failed to read token file'')
           | Inr None \<Rightarrow> Inr c
           | Inr (Some tokenBytes) \<Rightarrow>
               (case ParseToken cd tokenBytes of
                  Inl err \<Rightarrow> Inl (Wrap err ''failed to parse token'')
                | Inr (valid, cl) \<Rightarrow>
                    if \<not> valid then Inl (New ''failed to read token'')
                    else Inr (c\<lparr>jwt := Some tokenBytes, claims := Some cl\<rparr>))))"

text \<open>
  The body of the second \<open>if\<close> of \<open>Token\<close> (lines 92-95) and the return that follows
  it (line 98).
\<close>

definition renew ::
  "codec \<Rightarrow> client \<Rightarrow> world \<Rightarrow> ((error + bytes option) \<times> client \<times> world) outcome" where
  "renew cd c w =
     (case persistNewToken cd c w of
        Panic \<Rightarrow> Panic
      | Ret (Some err, c', w') \<Rightarrow> Ret (Inl (WithMessage err ''failed to create new token''), c', w')
      | Ret (None, c', w') \<Rightarrow> Ret (Inr (jwt c'), c', w'))"

text \<open>
  \<open>Token\<close> (lines 67-99). The condition of line 91 short-circuits: the clock is read
  only when claims are cached, and \<open>*c.claims.ExpiresAt\<close> panics on a nil field.
\<close>

definition Token ::
  "codec \<Rightarrow> client \<Rightarrow> world \<Rightarrow> ((error + bytes option) \<times> client \<times> world) outcome" where
  "Token cd c w =
     (case loadCached cd c w of
        Inl err \<Rightarrow> Ret (Inl err, c, w)
      | Inr c1 \<Rightarrow>
          (case claims c1 of
             None \<Rightarrow> renew cd c1 w
           | Some cl \<Rightarrow>
               (case ExpiresAt cl of
                  None \<Rightarrow> Panic
                | Some e \<Rightarrow>
                    (let (now, w1) = Now w
                     in if e <=s now then renew cd c1 w1
                        else Ret (Inr (jwt c1), c1, w1)))))"

text \<open>
  \<open>newWithClock\<close> (lines 43-53); \<open>New\<close> (lines 38-40) is \<open>newWithClock\<close> with the
  system clock, which is one of the clocks a world can have.
\<close>

definition newWithClock ::
  "codec \<Rightarrow> string \<Rightarrow> uint \<Rightarrow> world \<Rightarrow> ((error + client) \<times> world) outcome" where
  "newWithClock cd tokenFile refresh' w =
     (case Token cd \<lparr>file' = tokenFile, refresh = refresh', claims = None, jwt = None\<rparr> w of
        Panic \<Rightarrow> Panic
      | Ret (Inl err, c, w') \<Rightarrow> Ret (Inl err, w')
      | Ret (Inr _, c, w') \<Rightarrow> Ret (Inr c, w'))"

section \<open>Fixtures\<close>

text \<open>
  A small claims transport for running the model on concrete inputs. It encodes a record
  as \<open>jwt.\<close> followed by its subject and fails on a record without subject; it decodes
  three tokens and rejects every other input, the empty one included.
\<close>

definition tokenA :: ErfClaims where
  "tokenA = \<lparr>IssuedAt = Some 1000, ExpiresAt = Some 1100, Subject = Some ''A'',
              SequenceNo = Some 0, Previous = Some ''''\<rparr>"

definition tokenOld :: ErfClaims where
  "tokenOld = \<lparr>IssuedAt = Some 10, ExpiresAt = Some 110, Subject = Some ''old'',
                SequenceNo = Some 7, Previous = Some ''older''\<rparr>"

definition testCodec :: codec where
  "testCodec =
     \<lparr>ParseToken = (\<lambda>bs.
        if bs = ''jwt.A'' then Inr (True, tokenA)
        else if bs = ''jwt.old'' then Inr (True, tokenOld)
        else if bs = ''jwt.unsigned'' then Inr (False, tokenA)
        else Inl (Errno ''token contains an invalid number of segments'')),
      SignedString = (\<lambda>k.
        case Subject k of
          None \<Rightarrow> Inl (Errno ''json: unsupported value'')
        | Some sub \<Rightarrow> Inr (''jwt.'' @ sub))\<rparr>"

text \<open>
  The world of the package's tests: an empty directory that can be written, a mock clock
  frozen at 1000 and an identifier generator that yields \<open>A\<close>, then \<open>B\<close>.
\<close>

definition testWorld :: world where
  "testWorld =
     \<lparr>nodes = (\<lambda>name. Absent), writes = (\<lambda>name. WriteOk),
      clock_at = (\<lambda>n. 1000), ticks = 0,
      uuid_at = (\<lambda>n. if n = 0 then ''A'' else ''B''), drawn = 0\<rparr>"

definition testClient :: client where
  "testClient = \<lparr>file' = ''newtokenfile'', refresh = 100, claims = None, jwt = None\<rparr>"

text \<open>The same client with a record cached: the current one, and one long expired.\<close>

definition clientA :: client where
  "clientA = testClient\<lparr>claims := Some tokenA, jwt := Some ''jwt.A''\<rparr>"

definition clientOld :: client where
  "clientOld = testClient\<lparr>claims := Some tokenOld, jwt := Some ''jwt.old''\<rparr>"

text \<open>
  Variations of the test world: the mock clock frozen at another time; a directory whose
  files all hold the given bytes; a path whose parent directory does not exist; a token
  file of a past run that is read-only.
\<close>

definition frozenAt :: "int64 \<Rightarrow> world" where
  "frozenAt t = testWorld\<lparr>clock_at := (\<lambda>n. t)\<rparr>"

definition holding :: "bytes \<Rightarrow> world" where
  "holding bs = testWorld\<lparr>nodes := (\<lambda>name. File bs)\<rparr>"

definition missingDirWorld :: world where
  "missingDirWorld =
     testWorld\<lparr>writes := (\<lambda>name. OpenFails (Errno ''no such file or directory''))\<rparr>"

definition readOnlyWorld :: world where
  "readOnlyWorld =
     testWorld\<lparr>nodes := (\<lambda>name. File ''jwt.old''),
               writes := (\<lambda>name. OpenFails (Errno ''permission denied''))\<rparr>"

text \<open>The record that follows \<open>tokenOld\<close> when it is rotated in the test world.\<close>

definition tokenNext :: ErfClaims where
  "tokenNext = \<lparr>IssuedAt = Some 1000, ExpiresAt = Some 1100, Subject = Some ''A'',
                 SequenceNo = Some 8, Previous = Some ''old''\<rparr>"

text \<open>
  The record that follows \<open>tokenA\<close> when it is rotated with the clock at 1100, and a
  client whose cached record carries the largest sequence number an \<open>int64\<close> can hold.
\<close>

definition tokenB :: ErfClaims where
  "tokenB = \<lparr>IssuedAt = Some 1100, ExpiresAt = Some 1200, Subject = Some ''A'',
              SequenceNo = Some 1, Previous = Some ''A''\<rparr>"

definition tokenMax :: ErfClaims where
  "tokenMax = \<lparr>IssuedAt = Some 10, ExpiresAt = Some 110, Subject = Some ''old'',
                SequenceNo = Some 9223372036854775807, Previous = Some ''older''\<rparr>"

definition clientMax :: client where
  "clientMax = testClient\<lparr>claims := Some tokenMax, jwt := Some ''jwt.old''\<rparr>"

text \<open>The test world with the clock frozen at \<open>t\<close> and no file that can be written.\<close>

definition unwritableAt :: "int64 \<Rightarrow> world" where
  "unwritableAt t =
     (frozenAt t)\<lparr>writes := (\<lambda>name. OpenFails (Errno ''permission denied''))\<rparr>"

text \<open>The test world after the first token has been minted and written.\<close>

definition afterMint :: world where
  "afterMint =
     testWorld\<lparr>nodes := (nodes testWorld)(''newtokenfile'' := File ''jwt.A''),
               ticks := 1, drawn := 1\<rparr>"

section \<open>How the functions run\<close>

text \<open>
  \<open>persistNewToken\<close> written out for a client with nothing cached and for a client
  whose cached record has the two fields it dereferences.
\<close>

lemma persistNewToken_fresh:
  assumes "claims c = None"
  shows "persistNewToken cd c w =
    (let k = \<lparr>IssuedAt = Some (clock_at w (ticks w)),
              ExpiresAt = Some (clock_at w (ticks w) + ucast (refresh c)),
              Subject = Some (uuid_at w (drawn w)),
              SequenceNo = Some 0, Previous = Some ''''\<rparr>;
         w2 = w\<lparr>ticks := Suc (ticks w), drawn := Suc (drawn w)\<rparr>
     in case SignedString cd k of
          Inl err \<Rightarrow> Ret (Some (WithMessage err ''failed to create token''), c, w2)
        | Inr s \<Rightarrow>
           (case WriteFile w2 (file' c) s of
              (Some err, w3) \<Rightarrow> Ret (Some err, c, w3)
            | (None, w3) \<Rightarrow> Ret (None, c\<lparr>claims := Some k, jwt := Some s\<rparr>, w3)))"
  using assms
  by (simp add: persistNewToken_def Now_def NewV4_def Let_def
      split: sum.split prod.split option.split)

lemma persistNewToken_cached:
  assumes "claims c = Some old" and "SequenceNo old = Some s" and "Subject old = Some p"
  shows "persistNewToken cd c w =
    (let k = \<lparr>IssuedAt = Some (clock_at w (ticks w)),
              ExpiresAt = Some (clock_at w (ticks w) + ucast (refresh c)),
              Subject = Some (uuid_at w (drawn w)),
              SequenceNo = Some (s + 1), Previous = Some p\<rparr>;
         w2 = w\<lparr>ticks := Suc (ticks w), drawn := Suc (drawn w)\<rparr>
     in case SignedString cd k of
          Inl err \<Rightarrow> Ret (Some (WithMessage err ''failed to create token''), c, w2)
        | Inr s \<Rightarrow>
           (case WriteFile w2 (file' c) s of
              (Some err, w3) \<Rightarrow> Ret (Some err, c, w3)
            | (None, w3) \<Rightarrow> Ret (None, c\<lparr>claims := Some k, jwt := Some s\<rparr>, w3)))"
  using assms
  by (simp add: persistNewToken_def Now_def NewV4_def Let_def
      split: sum.split prod.split option.split)

text \<open>Writing a file neither reads the clock nor draws an identifier.\<close>

lemma WriteFile_counters:
  "WriteFile w name data = (r, w') \<Longrightarrow> drawn w' = drawn w \<and> ticks w' = ticks w"
  by (auto simp: WriteFile_def split: wplan.splits)

text \<open>
  Every call of \<open>persistNewToken\<close> that returns has read the clock once and drawn one
  identifier, and nothing else in the package draws one: a change of \<open>drawn\<close> across a
  call of \<open>Token\<close> tells that the call went into \<open>persistNewToken\<close>.
\<close>

lemma persistNewToken_draws:
  assumes "persistNewToken cd c w = Ret (r, c', w')"
  shows "drawn w' = Suc (drawn w) \<and> ticks w' = Suc (ticks w)"
  using assms
  by (auto simp: persistNewToken_def Now_def NewV4_def Let_def
      split: option.splits sum.splits prod.splits outcome.splits dest!: WriteFile_counters)

lemma persistNewToken_returns:
  assumes "claims c = Some old" and "SequenceNo old = Some s" and "Subject old = Some p"
  shows "\<exists>r c' w'. persistNewToken cd c w = Ret (r, c', w')"
  using assms
  by (simp add: persistNewToken_cached Let_def split: sum.split prod.split option.split)

text \<open>What a successful and what a failed call of \<open>persistNewToken\<close> leave behind.\<close>

lemma persistNewToken_success:
  assumes "persistNewToken cd c w = Ret (None, c', w')"
  shows "\<exists>k s. claims c' = Some k \<and> jwt c' = Some s \<and> file' c' = file' c \<and>
           refresh c' = refresh c \<and> SignedString cd k = Inr s \<and>
           nodes w' (file' c) = File s \<and>
           IssuedAt k = Some (clock_at w (ticks w)) \<and>
           ExpiresAt k = Some (clock_at w (ticks w) + ucast (refresh c))"
  using assms
  by (auto simp: persistNewToken_def Now_def NewV4_def Let_def WriteFile_def
      split: option.splits sum.splits prod.splits outcome.splits wplan.splits)

lemma persistNewToken_failure:
  assumes "persistNewToken cd c w = Ret (Some err, c', w')"
  shows "c' = c"
  using assms
  by (auto simp: persistNewToken_def Now_def NewV4_def Let_def
      split: option.splits sum.splits prod.splits outcome.splits)

lemma persistNewToken_links:
  assumes "persistNewToken cd c w = Ret (None, c', w')"
  shows "\<exists>k'. claims c' = Some k' \<and>
     (case claims c of
        None \<Rightarrow> SequenceNo k' = Some 0 \<and> Previous k' = Some ''''
      | Some old \<Rightarrow> \<exists>s p. SequenceNo old = Some s \<and> Subject old = Some p \<and>
           SequenceNo k' = Some (s + 1) \<and> Previous k' = Some p)"
  using assms
  by (auto simp: persistNewToken_def Now_def NewV4_def Let_def
      split: option.splits sum.splits prod.splits outcome.splits)

text \<open>The same for \<open>renew\<close>, which only wraps the error and returns the cached bytes.\<close>

lemma renew_draws:
  assumes "renew cd c w = Ret (r, c', w')"
  shows "drawn w' = Suc (drawn w) \<and> ticks w' = Suc (ticks w)"
  using assms
  by (auto simp: renew_def split: outcome.splits prod.splits option.splits
      dest: persistNewToken_draws)

lemma renew_returns:
  assumes "claims c = Some old" and "SequenceNo old = Some s" and "Subject old = Some p"
  shows "\<exists>r c' w'. renew cd c w = Ret (r, c', w')"
proof -
  obtain r c' w' where "persistNewToken cd c w = Ret (r, c', w')"
    using persistNewToken_returns [OF assms] by blast
  then show ?thesis by (cases r) (simp_all add: renew_def)
qed

lemma renew_links:
  assumes "renew cd c w = Ret (Inr out, c', w')" and "claims c = Some old"
    and "SequenceNo old = Some s"
  shows "\<exists>k'. claims c' = Some k' \<and> SequenceNo k' = Some (s + 1)"
proof -
  from assms(1) have "persistNewToken cd c w = Ret (None, c', w')"
    by (auto simp: renew_def split: outcome.splits prod.splits option.splits)
  from persistNewToken_links [OF this] assms(2,3) show ?thesis by auto
qed

text \<open>
  \<open>Token\<close> written out on its three ways in: a record is cached; nothing is cached and
  the file holds a token that parses and is valid; nothing is cached and there is no file.
\<close>

lemma Token_cached:
  assumes "claims c = Some cl" and "ExpiresAt cl = Some e"
  shows "Token cd c w =
    (if e <=s clock_at w (ticks w) then renew cd c (w\<lparr>ticks := Suc (ticks w)\<rparr>)
     else Ret (Inr (jwt c), c, w\<lparr>ticks := Suc (ticks w)\<rparr>))"
  using assms by (simp add: Token_def loadCached_def Now_def)

lemma Token_loaded:
  assumes "claims c = None" and "nodes w (file' c) = File bs"
    and "ParseToken cd bs = Inr (True, k)" and "ExpiresAt k = Some e"
  shows "Token cd c w =
    (if e <=s clock_at w (ticks w)
     then renew cd (c\<lparr>jwt := Some bs, claims := Some k\<rparr>) (w\<lparr>ticks := Suc (ticks w)\<rparr>)
     else Ret (Inr (Some bs), c\<lparr>jwt := Some bs, claims := Some k\<rparr>,
               w\<lparr>ticks := Suc (ticks w)\<rparr>))"
  using assms by (simp add: Token_def loadCached_def readFile_def Now_def)

lemma Token_first_run:
  assumes "claims c = None" and "nodes w (file' c) = Absent"
  shows "Token cd c w = renew cd c w"
  using assms by (simp add: Token_def loadCached_def readFile_def)

text \<open>
  The first block of \<open>Token\<close> changes neither the file name nor the refresh interval,
  and changes nothing at all when a record is cached.
\<close>

lemma loadCached_config:
  assumes "loadCached cd c w = Inr c1"
  shows "file' c1 = file' c \<and> refresh c1 = refresh c \<and> (claims c \<noteq> None \<longrightarrow> c1 = c)"
  using assms
  by (auto simp: loadCached_def split: option.splits sum.splits if_splits prod.splits)

text \<open>
  A call of \<open>Token\<close> on a cached record that succeeds and has changed the cached
  record has chained the new record off the cached one.
\<close>

lemma Token_rotation_links:
  assumes "Token cd c w = Ret (Inr out, c', w')" and "claims c' \<noteq> claims c"
    and "claims c = Some old" and "SequenceNo old = Some s"
  shows "\<exists>k'. claims c' = Some k' \<and> SequenceNo k' = Some (s + 1)"
proof (cases "ExpiresAt old")
  case None
  with assms(1,3) show ?thesis by (simp add: Token_def loadCached_def)
next
  case (Some e)
  show ?thesis
  proof (cases "e <=s clock_at w (ticks w)")
    case True
    with assms(1) have "renew cd c (w\<lparr>ticks := Suc (ticks w)\<rparr>) = Ret (Inr out, c', w')"
      by (simp add: Token_cached [OF assms(3) Some])
    from renew_links [OF this assms(3,4)] show ?thesis .
  next
    case False
    with assms(1,2) show ?thesis by (auto simp: Token_cached [OF assms(3) Some])
  qed
qed

text \<open>
  A call of \<open>Token\<close> that succeeds leaves a record cached, so every manager that
  \<open>newWithClock\<close> returns has one: the only call of \<open>Token\<close> with nothing cached
  is the one made during construction.
\<close>

lemma Token_success_cached:
  assumes "Token cd c w = Ret (Inr out, c', w')"
  shows "claims c' \<noteq> None"
proof -
  from assms obtain c1 where l: "loadCached cd c w = Inr c1"
    by (cases "loadCached cd c w") (auto simp: Token_def)
  show ?thesis
  proof (cases "claims c1")
    case None
    with assms l have "renew cd c1 w = Ret (Inr out, c', w')" by (simp add: Token_def)
    then have "persistNewToken cd c1 w = Ret (None, c', w')"
      by (auto simp: renew_def split: outcome.splits prod.splits option.splits)
    from persistNewToken_success [OF this] show ?thesis by auto
  next
    case (Some cl)
    show ?thesis
    proof (cases "ExpiresAt cl")
      case None
      with assms l Some show ?thesis by (simp add: Token_def)
    next
      case e: (Some e)
      show ?thesis
      proof (cases "e <=s clock_at w (ticks w)")
        case True
        with assms l Some e
        have "renew cd c1 (w\<lparr>ticks := Suc (ticks w)\<rparr>) = Ret (Inr out, c', w')"
          by (simp add: Token_def Now_def)
        then have "persistNewToken cd c1 (w\<lparr>ticks := Suc (ticks w)\<rparr>) = Ret (None, c', w')"
          by (auto simp: renew_def split: outcome.splits prod.splits option.splits)
        from persistNewToken_success [OF this] show ?thesis by auto
      next
        case False
        with assms l Some e show ?thesis by (auto simp: Token_def Now_def)
      qed
    qed
  qed
qed

lemma newWithClock_cached:
  assumes "newWithClock cd tokenFile r w = Ret (Inr c, w')"
  shows "claims c \<noteq> None"
  using assms
  by (auto simp: newWithClock_def split: outcome.splits prod.splits sum.splits
      dest: Token_success_cached)

text \<open>
  An \<open>int64\<close> plus a \<open>uint\<close> converted to \<open>int64\<close>, when the sum of the two numbers
  is below \<open>2 ^ 63\<close>: the addition does not wrap.
\<close>

lemma sint_add_uint:
  fixes a b :: "64 word"
  assumes "sint a + uint b < 2 ^ 63"
  shows "sint (a + b) = sint a + uint b"
proof -
  have "- (2 ^ 63) \<le> sint a" using sint_ge [of a] by simp
  moreover have "0 \<le> uint b" by simp
  ultimately have lo: "- (2 ^ 63) \<le> sint a + uint b" by linarith
  have "a + b = word_of_int (sint a + uint b)" by simp
  then have "sint (a + b) = signed_take_bit 63 (sint a + uint b)"
    by (simp only: sint_sbintrunc') simp
  also have "\<dots> = sint a + uint b"
    using lo assms by (simp add: signed_take_bit_int_eq_self)
  finally show ?thesis .
qed

text \<open>The successor of an \<open>int64\<close> below \<open>2 ^ 63 - 1\<close>.\<close>

lemma sint_succ:
  fixes s :: "64 word"
  assumes "sint s < 2 ^ 63 - 1"
  shows "sint (s + 1) = sint s + 1"
  using sint_add_uint [of s 1] assms by simp

section \<open>The chain of records\<close>

text \<open>
  C1 says that the minted record's sequence number is the cached one plus one, for every
  cached record. The field is an \<open>int64\<close> and line 131 adds without a check: a cached
  record with \<open>SequenceNo = 2 ^ 63 - 1\<close>, which a token file can hold, is followed by a
  record with \<open>SequenceNo = - 2 ^ 63\<close>.
\<close>

theorem sequence_number_wraps:
  "persistNewToken testCodec clientMax testWorld =
     Ret (None,
          clientMax\<lparr>claims := Some \<lparr>IssuedAt = Some 1000, ExpiresAt = Some 1100,
                        Subject = Some ''A'', SequenceNo = Some (- 9223372036854775808),
                        Previous = Some ''old''\<rparr>,
                     jwt := Some ''jwt.A''\<rparr>, afterMint) \<and>
   claims clientMax = Some tokenMax \<and> SequenceNo tokenMax = Some 9223372036854775807 \<and>
   sint (- 9223372036854775808 :: int64) \<noteq> sint (9223372036854775807 :: int64) + 1 \<and>
   sint (- 9223372036854775808 :: int64) < 0"
  by (simp add: persistNewToken_def Now_def NewV4_def WriteFile_def testCodec_def
      clientMax_def testClient_def testWorld_def tokenMax_def afterMint_def)

text \<open>
  C1, amended. Every rotation that \<open>persistNewToken\<close> performs while a record is cached
  mints a record whose \<open>Previous\<close> is the cached record's \<open>Subject\<close> and whose
  \<open>SequenceNo\<close> is, as a number, the cached record's \<open>SequenceNo\<close> plus one,
  provided the cached number is below \<open>2 ^ 63 - 1\<close>. The expiry of the cached record
  plays no part: it may be arbitrarily far in the past. A rotation with nothing cached
  mints \<open>SequenceNo = 0\<close> and \<open>Previous = ""\<close>.
\<close>

theorem persistNewToken_chain:
  assumes "persistNewToken cd c w = Ret (None, c', w')"
  shows "\<exists>k'. claims c' = Some k' \<and>
     (case claims c of
        None \<Rightarrow> SequenceNo k' = Some 0 \<and> Previous k' = Some ''''
      | Some old \<Rightarrow> \<exists>s s' p. SequenceNo old = Some s \<and> Subject old = Some p \<and>
           SequenceNo k' = Some s' \<and> Previous k' = Some p \<and>
           (sint s < 2 ^ 63 - 1 \<longrightarrow> sint s' = sint s + 1))"
proof -
  from persistNewToken_links [OF assms] obtain k' where k: "claims c' = Some k'"
    "case claims c of
        None \<Rightarrow> SequenceNo k' = Some 0 \<and> Previous k' = Some ''''
      | Some old \<Rightarrow> \<exists>s p. SequenceNo old = Some s \<and> Subject old = Some p \<and>
           SequenceNo k' = Some (s + 1) \<and> Previous k' = Some p"
    by blast
  show ?thesis
  proof (cases "claims c")
    case None
    with k show ?thesis by simp
  next
    case (Some old)
    with k obtain s p where "SequenceNo old = Some s" "Subject old = Some p"
      "SequenceNo k' = Some (s + 1)" "Previous k' = Some p" by auto
    with k(1) Some show ?thesis by (auto simp: sint_succ)
  qed
qed

text \<open>
  The long expired record of sequence number 7 and subject \<open>old\<close> is followed, at time
  1000, by the record of sequence number 8 whose \<open>Previous\<close> is \<open>old\<close>.
\<close>

theorem persistNewToken_chain_witness:
  "persistNewToken testCodec clientOld testWorld =
     Ret (None, clientOld\<lparr>claims := Some tokenNext, jwt := Some ''jwt.A''\<rparr>, afterMint) \<and>
   claims clientOld = Some tokenOld \<and> ExpiresAt tokenOld = Some 110 \<and>
   SequenceNo tokenOld = Some 7 \<and> Subject tokenOld = Some ''old'' \<and>
   sint (7 :: int64) < 2 ^ 63 - 1 \<and>
   (\<exists>k' s'. claims (clientOld\<lparr>claims := Some tokenNext, jwt := Some ''jwt.A''\<rparr>) = Some k' \<and>
      SequenceNo k' = Some s' \<and> sint s' = 8 \<and> Previous k' = Some ''old'')"
proof -
  have h: "persistNewToken testCodec clientOld testWorld =
     Ret (None, clientOld\<lparr>claims := Some tokenNext, jwt := Some ''jwt.A''\<rparr>, afterMint)"
    by (simp add: persistNewToken_def Now_def NewV4_def WriteFile_def testCodec_def
        clientOld_def testClient_def testWorld_def tokenOld_def tokenNext_def afterMint_def)
  have a: "claims clientOld = Some tokenOld" "ExpiresAt tokenOld = Some 110"
    "SequenceNo tokenOld = Some 7" "Subject tokenOld = Some ''old''"
    "sint (7 :: int64) < 2 ^ 63 - 1"
    by (simp_all add: clientOld_def tokenOld_def)
  show ?thesis
    using h a persistNewToken_chain [OF h] by auto
qed

section \<open>When \<open>Token\<close> rotates\<close>

text \<open>
  C2 says that \<open>Token\<close> rotates if and only if the clock has reached \<open>ExpiresAt\<close>,
  and that a rotation occurs with the clock at \<open>issuedAt + r\<close>. With the record issued
  at 1000, \<open>refresh = 100\<close>, the clock at 1100 and a token file that cannot be
  written, \<open>Token\<close> goes into \<open>persistNewToken\<close>, which fails: the call returns the
  error, the cached record is still the one issued at 1000 and the file is untouched. The
  record has expired and no rotation has occurred.
\<close>

theorem expired_but_not_rotated:
  "claims clientA = Some tokenA \<and> IssuedAt tokenA = Some 1000 \<and>
   ExpiresAt tokenA = Some 1100 \<and> refresh clientA = 100 \<and>
   clock_at (unwritableAt 1100) (ticks (unwritableAt 1100)) = 1000 + 100 \<and>
   (1100 :: int64) <=s clock_at (unwritableAt 1100) (ticks (unwritableAt 1100)) \<and>
   Token testCodec clientA (unwritableAt 1100) =
     Ret (Inl (WithMessage (Errno ''permission denied'') ''failed to create new token''),
          clientA, (unwritableAt 1100)\<lparr>ticks := 2, drawn := 1\<rparr>) \<and>
   nodes ((unwritableAt 1100)\<lparr>ticks := 2, drawn := 1\<rparr>) = nodes (unwritableAt 1100)"
  by (simp add: Token_def loadCached_def renew_def persistNewToken_def Now_def NewV4_def
      WriteFile_def testCodec_def clientA_def testClient_def testWorld_def frozenAt_def
      unwritableAt_def tokenA_def)

text \<open>
  C2, amended. Expiry is inclusive at the boundary. For a client with a record cached (the
  fields that the code dereferences are set, as in every record the package mints), let
  \<open>now\<close> be the clock reading of line 91 and \<open>k\<close> the successor record that
  \<open>persistNewToken\<close> builds. Then:
  \<^item> when \<open>now >= ExpiresAt\<close> does not hold, \<open>Token\<close> returns the cached bytes and
    leaves client and files as they are;
  \<^item> when \<open>now >= ExpiresAt\<close> holds and the encoding of \<open>k\<close> and the writing of
    the file succeed, \<open>Token\<close> rotates: \<open>k\<close> and its bytes are cached, written to the
    file and returned;
  \<^item> when \<open>now >= ExpiresAt\<close> holds and the encoding or the writing fails,
    \<open>Token\<close> returns the error and the client is unchanged.
  So \<open>Token\<close> returns, and the cached record has changed if and only if
  \<open>now >= ExpiresAt\<close> and encoding and writing succeed. In particular, for a record
  that expires at \<open>issuedAt + r\<close>, there is no rotation with the clock at
  \<open>issuedAt + r - 1\<close>, and there is one with the clock at \<open>issuedAt + r\<close> when
  encoding and writing succeed.
\<close>

theorem Token_rotates_iff_expired:
  assumes "claims c = Some cl" and "ExpiresAt cl = Some e"
    and "SequenceNo cl = Some s" and "Subject cl = Some p"
  shows "let now = clock_at w (ticks w);
             w1 = w\<lparr>ticks := Suc (ticks w)\<rparr>;
             k = \<lparr>IssuedAt = Some (clock_at w (Suc (ticks w))),
                  ExpiresAt = Some (clock_at w (Suc (ticks w)) + ucast (refresh c)),
                  Subject = Some (uuid_at w (drawn w)),
                  SequenceNo = Some (s + 1), Previous = Some p\<rparr>;
             rotated = (\<lambda>bs. Ret (Inr (Some bs), c\<lparr>claims := Some k, jwt := Some bs\<rparr>,
                          w\<lparr>ticks := Suc (Suc (ticks w)), drawn := Suc (drawn w),
                            nodes := (nodes w)(file' c := File bs)\<rparr>))
         in (\<not> e <=s now \<longrightarrow> Token cd c w = Ret (Inr (jwt c), c, w1)) \<and>
            (e <=s now \<and> SignedString cd k = Inr bs \<and> writes w (file' c) = WriteOk \<longrightarrow>
               Token cd c w = rotated bs) \<and>
            (e <=s now \<and> (SignedString cd k = Inl err \<or>
                SignedString cd k = Inr bs \<and> writes w (file' c) \<noteq> WriteOk) \<longrightarrow>
               (\<exists>err' w'. Token cd c w =
                  Ret (Inl (WithMessage err' ''failed to create new token''), c, w'))) \<and>
            (\<exists>r c' w'. Token cd c w = Ret (r, c', w') \<and>
               (claims c' \<noteq> claims c \<longleftrightarrow>
                  e <=s now \<and> (\<exists>bs'. SignedString cd k = Inr bs') \<and>
                  writes w (file' c) = WriteOk)) \<and>
            (IssuedAt cl = Some i \<and> sint e = sint i + uint (refresh c) \<and>
             sint now = sint i + uint (refresh c) - 1 \<longrightarrow>
               Token cd c w = Ret (Inr (jwt c), c, w1)) \<and>
            (IssuedAt cl = Some i \<and> sint e = sint i + uint (refresh c) \<and>
             sint now = sint i + uint (refresh c) \<and>
             SignedString cd k = Inr bs \<and> writes w (file' c) = WriteOk \<longrightarrow>
               Token cd c w = rotated bs)"
proof -
  let ?now = "clock_at w (ticks w)"
  let ?w1 = "w\<lparr>ticks := Suc (ticks w)\<rparr>"
  let ?k = "\<lparr>IssuedAt = Some (clock_at w (Suc (ticks w))),
            ExpiresAt = Some (clock_at w (Suc (ticks w)) + ucast (refresh c)),
            Subject = Some (uuid_at w (drawn w)),
            SequenceNo = Some (s + 1), Previous = Some p\<rparr>"
  have fresh: "\<not> e <=s ?now \<Longrightarrow> Token cd c w = Ret (Inr (jwt c), c, ?w1)"
    by (simp add: Token_cached [OF assms(1,2)])
  have stale: "e <=s ?now \<Longrightarrow> Token cd c w =
      (case SignedString cd ?k of
         Inl err \<Rightarrow> Ret (Inl (WithMessage (WithMessage err ''failed to create token'')
                              ''failed to create new token''), c,
                        w\<lparr>ticks := Suc (Suc (ticks w)), drawn := Suc (drawn w)\<rparr>)
       | Inr bs \<Rightarrow>
           (case writes w (file' c) of
              WriteOk \<Rightarrow> Ret (Inr (Some bs), c\<lparr>claims := Some ?k, jwt := Some bs\<rparr>,
                          w\<lparr>ticks := Suc (Suc (ticks w)), drawn := Suc (drawn w),
                            nodes := (nodes w)(file' c := File bs)\<rparr>)
            | OpenFails err \<Rightarrow> Ret (Inl (WithMessage err ''failed to create new token''), c,
                          w\<lparr>ticks := Suc (Suc (ticks w)), drawn := Suc (drawn w)\<rparr>)
            | WriteFails err n \<Rightarrow> Ret (Inl (WithMessage err ''failed to create new token''), c,
                          w\<lparr>ticks := Suc (Suc (ticks w)), drawn := Suc (drawn w),
                            nodes := (nodes w)(file' c := File (take n bs))\<rparr>)))"
    by (simp add: Token_cached [OF assms(1,2)] renew_def
        persistNewToken_cached [OF assms(1,3,4)] Let_def WriteFile_def
        split: sum.split wplan.split)
  have differs: "Some ?k \<noteq> claims c"
    using assms(1,3) by auto
  have ex: "\<exists>r c' w'. Token cd c w = Ret (r, c', w') \<and>
               (claims c' \<noteq> claims c \<longleftrightarrow>
                  e <=s ?now \<and> (\<exists>bs'. SignedString cd ?k = Inr bs') \<and>
                  writes w (file' c) = WriteOk)"
  proof (cases "e <=s ?now")
    case False
    then show ?thesis using fresh by simp
  next
    case True
    show ?thesis using differs
      by (simp add: stale [OF True] True split: sum.split wplan.split)
  qed
  have b1: "IssuedAt cl = Some i \<and> sint e = sint i + uint (refresh c) \<and>
             sint ?now = sint i + uint (refresh c) - 1 \<longrightarrow> \<not> e <=s ?now"
    by (simp add: word_sle_eq)
  have b2: "IssuedAt cl = Some i \<and> sint e = sint i + uint (refresh c) \<and>
             sint ?now = sint i + uint (refresh c) \<longrightarrow> e <=s ?now"
    by (simp add: word_sle_eq)
  show ?thesis
    unfolding Let_def
    using fresh stale ex b1 b2
    by (auto split: sum.splits wplan.splits)
qed

text \<open>
  The record issued at 1000 with \<open>refresh = 100\<close>: with the clock frozen at 1099
  \<open>Token\<close> returns the cached bytes; with the clock frozen at 1100 it rotates to the
  record issued at 1100 with sequence number 1, and returns the error when the file
  cannot be written.
\<close>

theorem Token_rotates_iff_expired_witness:
  "claims clientA = Some tokenA \<and> ExpiresAt tokenA = Some 1100 \<and>
   SequenceNo tokenA = Some 0 \<and> Subject tokenA = Some ''A'' \<and> IssuedAt tokenA = Some 1000 \<and>
   sint (1100 :: int64) = sint (1000 :: int64) + uint (refresh clientA) \<and>
   sint (clock_at (frozenAt 1099) (ticks (frozenAt 1099))) =
     sint (1000 :: int64) + uint (refresh clientA) - 1 \<and>
   Token testCodec clientA (frozenAt 1099) =
     Ret (Inr (jwt clientA), clientA, (frozenAt 1099)\<lparr>ticks := 1\<rparr>) \<and>
   sint (clock_at (frozenAt 1100) (ticks (frozenAt 1100))) =
     sint (1000 :: int64) + uint (refresh clientA) \<and>
   SignedString testCodec tokenB = Inr ''jwt.A'' \<and>
   writes (frozenAt 1100) (file' clientA) = WriteOk \<and>
   Token testCodec clientA (frozenAt 1100) =
     Ret (Inr (Some ''jwt.A''), clientA\<lparr>claims := Some tokenB, jwt := Some ''jwt.A''\<rparr>,
          (frozenAt 1100)\<lparr>ticks := 2, drawn := 1,
             nodes := (nodes (frozenAt 1100))(file' clientA := File ''jwt.A'')\<rparr>) \<and>
   (1100 :: int64) <=s clock_at (unwritableAt 1100) (ticks (unwritableAt 1100)) \<and>
   writes (unwritableAt 1100) (file' clientA) \<noteq> WriteOk \<and>
   (\<exists>err' w'. Token testCodec clientA (unwritableAt 1100) =
      Ret (Inl (WithMessage err' ''failed to create new token''), clientA, w'))"
proof -
  have h: "claims clientA = Some tokenA"
    "ExpiresAt tokenA = Some 1100" "SequenceNo tokenA = Some 0" "Subject tokenA = Some ''A''"
    by (simp_all add: clientA_def tokenA_def)
  have i: "IssuedAt tokenA = Some 1000" by (simp add: tokenA_def)
  have a: "sint (1100 :: int64) = sint (1000 :: int64) + uint (refresh clientA)"
    "sint (clock_at (frozenAt 1099) (ticks (frozenAt 1099))) =
       sint (1000 :: int64) + uint (refresh clientA) - 1"
    "sint (clock_at (frozenAt 1100) (ticks (frozenAt 1100))) =
       sint (1000 :: int64) + uint (refresh clientA)"
    "(1100 :: int64) <=s clock_at (unwritableAt 1100) (ticks (unwritableAt 1100))"
    by (simp_all add: clientA_def testClient_def frozenAt_def unwritableAt_def testWorld_def)
  have k: "\<lparr>IssuedAt = Some (clock_at (frozenAt 1100) (Suc (ticks (frozenAt 1100)))),
            ExpiresAt = Some (clock_at (frozenAt 1100) (Suc (ticks (frozenAt 1100)))
                              + ucast (refresh clientA)),
            Subject = Some (uuid_at (frozenAt 1100) (drawn (frozenAt 1100))),
            SequenceNo = Some (0 + 1), Previous = Some ''A''\<rparr> = tokenB"
    "\<lparr>IssuedAt = Some (clock_at (unwritableAt 1100) (Suc (ticks (unwritableAt 1100)))),
            ExpiresAt = Some (clock_at (unwritableAt 1100) (Suc (ticks (unwritableAt 1100)))
                              + ucast (refresh clientA)),
            Subject = Some (uuid_at (unwritableAt 1100) (drawn (unwritableAt 1100))),
            SequenceNo = Some (0 + 1), Previous = Some ''A''\<rparr> = tokenB"
    by (simp_all add: tokenB_def frozenAt_def unwritableAt_def testWorld_def clientA_def
        testClient_def)
  have s: "SignedString testCodec tokenB = Inr ''jwt.A''"
    by (simp add: testCodec_def tokenB_def)
  have wr: "writes (frozenAt 1100) (file' clientA) = WriteOk"
    "writes (unwritableAt 1100) (file' clientA) \<noteq> WriteOk"
    by (simp_all add: frozenAt_def unwritableAt_def testWorld_def)
  have t: "ticks (frozenAt 1099) = 0" "ticks (frozenAt 1100) = 0" "drawn (frozenAt 1100) = 0"
    by (simp_all add: frozenAt_def testWorld_def)
  note T1 = Token_rotates_iff_expired [OF h, where w = "frozenAt 1099" and cd = testCodec
      and i = 1000 and bs = "''jwt.A''" and err = "Errno ''none''", unfolded Let_def]
  note T2 = Token_rotates_iff_expired [OF h, where w = "frozenAt 1100" and cd = testCodec
      and i = 1000 and bs = "''jwt.A''" and err = "Errno ''none''", unfolded Let_def k]
  note T3 = Token_rotates_iff_expired [OF h, where w = "unwritableAt 1100" and cd = testCodec
      and i = 1000 and bs = "''jwt.A''" and err = "Errno ''none''", unfolded Let_def k]
  have c1: "Token testCodec clientA (frozenAt 1099) =
     Ret (Inr (jwt clientA), clientA, (frozenAt 1099)\<lparr>ticks := 1\<rparr>)"
    using T1 i a(1,2) by (simp add: t)
  have c2: "Token testCodec clientA (frozenAt 1100) =
     Ret (Inr (Some ''jwt.A''), clientA\<lparr>claims := Some tokenB, jwt := Some ''jwt.A''\<rparr>,
          (frozenAt 1100)\<lparr>ticks := 2, drawn := 1,
             nodes := (nodes (frozenAt 1100))(file' clientA := File ''jwt.A'')\<rparr>)"
    using T2 i a(1,3) s wr(1) by (simp add: t)
  have c3: "\<exists>err' w'. Token testCodec clientA (unwritableAt 1100) =
      Ret (Inl (WithMessage err' ''failed to create new token''), clientA, w')"
    using T3 a(4) s wr(2) by blast
  show ?thesis using h i a s wr c1 c2 c3 by simp
qed

text \<open>
  C3 says that the first record has \<open>expiresAt - issuedAt = r\<close> for every refresh
  interval \<open>r > 0\<close> and every clock reading. Line 124 adds \<open>int64(c.refresh)\<close> to
  the clock reading on 64 bits: with \<open>refresh = 2 ^ 63\<close> at time 1000, and with
  \<open>refresh = 100\<close> at time \<open>2 ^ 63 - 51\<close>, the sum wraps and the record expires
  before it is issued.
\<close>

theorem first_record_overflow:
  "claims (testClient\<lparr>refresh := 9223372036854775808\<rparr>) = None \<and>
   persistNewToken testCodec (testClient\<lparr>refresh := 9223372036854775808\<rparr>) testWorld =
     Ret (None,
          testClient\<lparr>refresh := 9223372036854775808,
                     claims := Some \<lparr>IssuedAt = Some 1000,
                        ExpiresAt = Some (- 9223372036854774808), Subject = Some ''A'',
                        SequenceNo = Some 0, Previous = Some ''''\<rparr>,
                     jwt := Some ''jwt.A''\<rparr>, afterMint) \<and>
   (0 :: uint) < 9223372036854775808 \<and>
   sint (- 9223372036854774808 :: int64) - sint (1000 :: int64)
     \<noteq> uint (9223372036854775808 :: uint) \<and>
   claims testClient = None \<and>
   persistNewToken testCodec testClient (frozenAt 9223372036854775757) =
     Ret (None,
          testClient\<lparr>claims := Some \<lparr>IssuedAt = Some 9223372036854775757,
                        ExpiresAt = Some (- 9223372036854775759), Subject = Some ''A'',
                        SequenceNo = Some 0, Previous = Some ''''\<rparr>,
                     jwt := Some ''jwt.A''\<rparr>,
          (frozenAt 9223372036854775757)
            \<lparr>nodes := (nodes testWorld)(''newtokenfile'' := File ''jwt.A''),
             ticks := 1, drawn := 1\<rparr>) \<and>
   (0 :: uint) < refresh testClient \<and>
   sint (- 9223372036854775759 :: int64) - sint (9223372036854775757 :: int64)
     \<noteq> uint (refresh testClient)"
  by (simp add: persistNewToken_def Now_def NewV4_def WriteFile_def testCodec_def
      testClient_def testWorld_def afterMint_def frozenAt_def)

text \<open>
  C3, amended. The first record minted by a manager with nothing cached, for every refresh
  interval \<open>r\<close> and every clock reading \<open>now\<close>: \<open>issuedAt = now\<close>,
  \<open>sequenceNo = 0\<close> and \<open>previous = ""\<close>; and \<open>expiresAt - issuedAt = r\<close>, as
  numbers, provided \<open>now + r < 2 ^ 63\<close>.
\<close>

theorem first_record:
  assumes "claims c = None" and "persistNewToken cd c w = Ret (None, c', w')"
  shows "\<exists>k i e. claims c' = Some k \<and> IssuedAt k = Some i \<and> ExpiresAt k = Some e \<and>
           i = clock_at w (ticks w) \<and>
           (sint (clock_at w (ticks w)) + uint (refresh c) < 2 ^ 63 \<longrightarrow>
              sint e - sint i = uint (refresh c)) \<and>
           SequenceNo k = Some 0 \<and> Previous k = Some ''''"
  using assms
  by (auto simp: persistNewToken_fresh Let_def sint_add_uint
      split: sum.splits prod.splits option.splits)

text \<open>The first test of the package: refresh 100, the clock frozen at 1000.\<close>

theorem first_record_witness:
  "claims testClient = None \<and>
   persistNewToken testCodec testClient testWorld = Ret (None, clientA, afterMint) \<and>
   sint (clock_at testWorld (ticks testWorld)) + uint (refresh testClient) < 2 ^ 63 \<and>
   (\<exists>k i e. claims clientA = Some k \<and>
      IssuedAt k = Some i \<and> ExpiresAt k = Some e \<and> i = 1000 \<and> sint e - sint i = 100 \<and>
      SequenceNo k = Some 0 \<and> Previous k = Some '''')"
proof -
  have f: "claims testClient = None" by (simp add: testClient_def)
  have h: "persistNewToken testCodec testClient testWorld = Ret (None, clientA, afterMint)"
    by (simp add: persistNewToken_def Now_def NewV4_def WriteFile_def testCodec_def
        testClient_def testWorld_def tokenA_def clientA_def afterMint_def)
  have a: "sint (clock_at testWorld (ticks testWorld)) + uint (refresh testClient) < 2 ^ 63"
    by (simp add: testClient_def testWorld_def)
  show ?thesis
    using f h a first_record [OF f h] by (auto simp: testClient_def testWorld_def)
qed

text \<open>
  C4. Idempotence under non-expiry: with a record cached, two successive calls of
  \<open>Token\<close> whose clock readings are both before \<open>ExpiresAt\<close> return the same bytes,
  the cached ones, and leave the client as it is.
\<close>

theorem Token_idempotent:
  assumes "claims c = Some cl" and "ExpiresAt cl = Some e"
    and "clock_at w (ticks w) <s e" and "clock_at w (Suc (ticks w)) <s e"
  shows "\<exists>w1 w2. Token cd c w = Ret (Inr (jwt c), c, w1) \<and>
                 Token cd c w1 = Ret (Inr (jwt c), c, w2)"
  using assms by (simp add: Token_cached word_sle_eq word_sless_alt)

theorem Token_idempotent_witness:
  "claims clientA = Some tokenA \<and> ExpiresAt tokenA = Some 1100 \<and>
   clock_at testWorld (ticks testWorld) <s 1100 \<and>
   clock_at testWorld (Suc (ticks testWorld)) <s 1100 \<and>
   (\<exists>w1 w2. Token testCodec clientA testWorld = Ret (Inr (Some ''jwt.A''), clientA, w1) \<and>
             Token testCodec clientA w1 = Ret (Inr (Some ''jwt.A''), clientA, w2))"
proof -
  have h: "claims clientA = Some tokenA" "ExpiresAt tokenA = Some 1100"
    "clock_at testWorld (ticks testWorld) <s 1100"
    "clock_at testWorld (Suc (ticks testWorld)) <s 1100"
    by (simp_all add: clientA_def tokenA_def testWorld_def)
  have j: "jwt clientA = Some ''jwt.A''" by (simp add: clientA_def)
  show ?thesis
    using h Token_idempotent [OF h, of testCodec] by (simp add: j)
qed

section \<open>The token file\<close>

text \<open>
  C5. Persistence round-trip. A first manager has minted and persisted a record \<open>k1\<close>
  as the bytes \<open>bs\<close>; the claims transport decodes what it has encoded
  (\<open>ParseToken\<close> of \<open>bs\<close> is the valid record \<open>k1\<close>); the file is as the first
  manager left it, and the clock has not reached the record's expiry. Then constructing a
  second manager on the same file succeeds with \<open>k1\<close> cached, its next \<open>Token\<close>
  returns \<open>bs\<close> with \<open>k1\<close> still cached, and nothing has been rotated: no identifier
  has been drawn and no file has changed.
\<close>

theorem persistence_round_trip:
  assumes "persistNewToken cd c w = Ret (None, c1, w1)"
    and "claims c1 = Some k1" and "jwt c1 = Some bs" and "ExpiresAt k1 = Some e"
    and "ParseToken cd bs = Inr (True, k1)"
    and "nodes w2 (file' c) = nodes w1 (file' c)"
    and "clock_at w2 (ticks w2) <s e" and "clock_at w2 (Suc (ticks w2)) <s e"
  shows "\<exists>c2 w3 w4. newWithClock cd (file' c) r2 w2 = Ret (Inr c2, w3) \<and>
           claims c2 = Some k1 \<and> jwt c2 = Some bs \<and>
           Token cd c2 w3 = Ret (Inr (Some bs), c2, w4) \<and>
           drawn w4 = drawn w2 \<and> nodes w4 = nodes w2"
proof -
  let ?c0 = "\<lparr>file' = file' c, refresh = r2, claims = None, jwt = None\<rparr>"
  let ?c2 = "?c0\<lparr>jwt := Some bs, claims := Some k1\<rparr>"
  let ?w3 = "w2\<lparr>ticks := Suc (ticks w2)\<rparr>"
  let ?w4 = "?w3\<lparr>ticks := Suc (ticks ?w3)\<rparr>"
  have "nodes w1 (file' c) = File bs"
    using persistNewToken_success [OF assms(1)] assms(3) by auto
  then have f: "nodes w2 (file' ?c0) = File bs" using assms(6) by simp
  have fresh: "claims ?c0 = None" by simp
  have t1: "Token cd ?c0 w2 = Ret (Inr (Some bs), ?c2, ?w3)"
    using assms(7)
    by (simp add: Token_loaded [OF fresh f assms(5) assms(4)] word_sle_eq word_sless_alt)
  have n: "newWithClock cd (file' c) r2 w2 = Ret (Inr ?c2, ?w3)"
    using t1 by (simp add: newWithClock_def)
  have cached: "claims ?c2 = Some k1" by simp
  have t2: "Token cd ?c2 ?w3 = Ret (Inr (Some bs), ?c2, ?w4)"
    using assms(8) Token_cached [OF cached assms(4), of cd ?w3]
    by (simp add: word_sle_eq word_sless_alt)
  show ?thesis using n t2 by auto
qed

text \<open>
  The first test of the package: the first client mints \<open>tokenA\<close> at 1000, the second
  client is made on the same file with the clock still at 1000.
\<close>

theorem persistence_round_trip_witness:
  "persistNewToken testCodec testClient testWorld = Ret (None, clientA, afterMint) \<and>
   claims clientA = Some tokenA \<and> jwt clientA = Some ''jwt.A'' \<and>
   ExpiresAt tokenA = Some 1100 \<and> ParseToken testCodec ''jwt.A'' = Inr (True, tokenA) \<and>
   clock_at afterMint (ticks afterMint) <s 1100 \<and>
   clock_at afterMint (Suc (ticks afterMint)) <s 1100 \<and>
   (\<exists>c2 w3 w4. newWithClock testCodec ''newtokenfile'' 100 afterMint = Ret (Inr c2, w3) \<and>
      claims c2 = Some tokenA \<and> jwt c2 = Some ''jwt.A'' \<and>
      Token testCodec c2 w3 = Ret (Inr (Some ''jwt.A''), c2, w4) \<and>
      drawn w4 = drawn afterMint \<and> nodes w4 = nodes afterMint)"
proof -
  have h: "persistNewToken testCodec testClient testWorld = Ret (None, clientA, afterMint)"
    by (simp add: persistNewToken_def Now_def NewV4_def WriteFile_def testCodec_def
        clientA_def afterMint_def testClient_def testWorld_def tokenA_def)
  have a: "claims clientA = Some tokenA" "jwt clientA = Some ''jwt.A''"
    "ExpiresAt tokenA = Some 1100" "ParseToken testCodec ''jwt.A'' = Inr (True, tokenA)"
    by (simp_all add: clientA_def tokenA_def testCodec_def)
  have b: "nodes afterMint (file' testClient) = nodes afterMint (file' testClient)" by simp
  have t: "clock_at afterMint (ticks afterMint) <s 1100"
    "clock_at afterMint (Suc (ticks afterMint)) <s 1100"
    by (simp_all add: afterMint_def testWorld_def)
  have f: "file' testClient = ''newtokenfile''" by (simp add: testClient_def)
  show ?thesis
    using h a t persistence_round_trip [OF h a b t, of 100] by (simp add: f)
qed

text \<open>
  C6. A corrupt file is fatal. When nothing is cached and the file exists with bytes
  that \<open>ParseToken\<close> does not decode to a valid token (it returns an error, or a token
  whose \<open>Valid\<close> flag is false), \<open>Token\<close> returns an error, and so does the
  construction of a manager on that file. Client and world are as before the call: no
  clock reading, no identifier drawn, no file written, so nothing has been minted.
\<close>

theorem corrupt_file_fatal:
  assumes "claims c = None" and "nodes w (file' c) = File bs"
    and "\<forall>k. ParseToken cd bs \<noteq> Inr (True, k)"
  shows "\<exists>err. Token cd c w = Ret (Inl err, c, w) \<and>
           newWithClock cd (file' c) r w = Ret (Inl err, w)"
proof (cases "ParseToken cd bs")
  case (Inl e)
  with assms(1,2) show ?thesis
    by (simp add: Token_def newWithClock_def loadCached_def readFile_def)
next
  case (Inr vk)
  then obtain k where "ParseToken cd bs = Inr (False, k)"
    using assms(3) by (cases vk) (metis (full_types))
  with assms(1,2) show ?thesis
    by (simp add: Token_def newWithClock_def loadCached_def readFile_def)
qed

text \<open>A file of garbage, which fails to decode, and a token that decodes but is not valid.\<close>

theorem corrupt_file_fatal_witness:
  "claims testClient = None \<and>
   nodes (holding ''garbage'') (file' testClient) = File ''garbage'' \<and>
   (\<forall>k. ParseToken testCodec ''garbage'' \<noteq> Inr (True, k)) \<and>
   (\<exists>err. Token testCodec testClient (holding ''garbage'') =
             Ret (Inl err, testClient, holding ''garbage'') \<and>
      newWithClock testCodec (file' testClient) 100 (holding ''garbage'') =
             Ret (Inl err, holding ''garbage'')) \<and>
   nodes (holding ''jwt.unsigned'') (file' testClient) = File ''jwt.unsigned'' \<and>
   (\<forall>k. ParseToken testCodec ''jwt.unsigned'' \<noteq> Inr (True, k)) \<and>
   (\<exists>err. Token testCodec testClient (holding ''jwt.unsigned'') =
             Ret (Inl err, testClient, holding ''jwt.unsigned'') \<and>
      newWithClock testCodec (file' testClient) 100 (holding ''jwt.unsigned'') =
             Ret (Inl err, holding ''jwt.unsigned''))"
proof -
  have c: "claims testClient = None" by (simp add: testClient_def)
  have g: "nodes (holding ''garbage'') (file' testClient) = File ''garbage''"
    "\<forall>k. ParseToken testCodec ''garbage'' \<noteq> Inr (True, k)"
    by (simp_all add: holding_def testCodec_def)
  have u: "nodes (holding ''jwt.unsigned'') (file' testClient) = File ''jwt.unsigned''"
    "\<forall>k. ParseToken testCodec ''jwt.unsigned'' \<noteq> Inr (True, k)"
    by (simp_all add: holding_def testCodec_def)
  show ?thesis
    using c g u corrupt_file_fatal [OF c g, of 100] corrupt_file_fatal [OF c u, of 100]
    by simp
qed

text \<open>
  C7 says that \<open>Token\<close> succeeds at every path at which no file exists. It does not
  where the file cannot be created: the path \<open>newtokenfile\<close> holds nothing, its parent
  directory is missing, \<open>ioutil.WriteFile\<close> fails and \<open>Token\<close> returns that error
  with nothing cached. The comment on \<open>New\<close> says as much: the file is created
  "provided the parent directory exists".
\<close>

theorem missing_file_write_fails:
  "claims testClient = None \<and> nodes missingDirWorld (file' testClient) = Absent \<and>
   Token testCodec testClient missingDirWorld =
     Ret (Inl (WithMessage (Errno ''no such file or directory'') ''failed to create new token''),
          testClient, missingDirWorld\<lparr>ticks := 1, drawn := 1\<rparr>)"
  by (simp add: Token_def loadCached_def readFile_def renew_def persistNewToken_def Now_def
      NewV4_def WriteFile_def testCodec_def testClient_def testWorld_def missingDirWorld_def)

text \<open>
  C7, amended. A missing file is not an error: at every path at which no file exists,
  \<open>readFile\<close> returns \<open>nil, nil\<close> and \<open>Token\<close>, with nothing cached, goes on as
  a first run. When the first record (\<open>SequenceNo = 0\<close>, \<open>Previous = ""\<close>) is encoded
  and the file is written, \<open>Token\<close> succeeds with that record cached and the file
  created with its bytes. When the encoding or the writing fails, \<open>Token\<close> returns an
  error and caches nothing.
\<close>

theorem missing_file_first_run:
  assumes "claims c = None" and "nodes w (file' c) = Absent"
  shows "let first = \<lparr>IssuedAt = Some (clock_at w (ticks w)),
                      ExpiresAt = Some (clock_at w (ticks w) + ucast (refresh c)),
                      Subject = Some (uuid_at w (drawn w)),
                      SequenceNo = Some 0, Previous = Some ''''\<rparr>
         in readFile w (file' c) = Inr None \<and>
            (SignedString cd first = Inr s \<and> writes w (file' c) = WriteOk \<longrightarrow>
               (\<exists>c' w'. Token cd c w = Ret (Inr (Some s), c', w') \<and>
                  claims c' = Some first \<and> jwt c' = Some s \<and> nodes w' (file' c) = File s)) \<and>
            (SignedString cd first = Inl err \<or>
             SignedString cd first = Inr s \<and> writes w (file' c) \<noteq> WriteOk \<longrightarrow>
               (\<exists>err' w'. Token cd c w = Ret (Inl err', c, w')))"
  using assms
  by (auto simp: Token_first_run renew_def persistNewToken_fresh Let_def readFile_def
      WriteFile_def split: wplan.splits)

text \<open>The empty directory of the tests, and the path whose parent directory is missing.\<close>

theorem missing_file_first_run_witness:
  "claims testClient = None \<and> nodes testWorld (file' testClient) = Absent \<and>
   SignedString testCodec tokenA = Inr ''jwt.A'' \<and>
   writes testWorld (file' testClient) = WriteOk \<and>
   readFile testWorld (file' testClient) = Inr None \<and>
   (\<exists>c' w'. Token testCodec testClient testWorld = Ret (Inr (Some ''jwt.A''), c', w') \<and>
      claims c' = Some tokenA \<and> jwt c' = Some ''jwt.A'' \<and>
      nodes w' (file' testClient) = File ''jwt.A'') \<and>
   nodes missingDirWorld (file' testClient) = Absent \<and>
   writes missingDirWorld (file' testClient) \<noteq> WriteOk \<and>
   (\<exists>err' w'. Token testCodec testClient missingDirWorld = Ret (Inl err', testClient, w'))"
proof -
  have c: "claims testClient = None" by (simp add: testClient_def)
  have a: "nodes testWorld (file' testClient) = Absent"
    "nodes missingDirWorld (file' testClient) = Absent"
    by (simp_all add: testWorld_def missingDirWorld_def)
  have f: "\<lparr>IssuedAt = Some (clock_at testWorld (ticks testWorld)),
            ExpiresAt = Some (clock_at testWorld (ticks testWorld) + ucast (refresh testClient)),
            Subject = Some (uuid_at testWorld (drawn testWorld)),
            SequenceNo = Some 0, Previous = Some ''''\<rparr> = tokenA"
    "\<lparr>IssuedAt = Some (clock_at missingDirWorld (ticks missingDirWorld)),
      ExpiresAt = Some (clock_at missingDirWorld (ticks missingDirWorld)
                        + ucast (refresh testClient)),
      Subject = Some (uuid_at missingDirWorld (drawn missingDirWorld)),
      SequenceNo = Some 0, Previous = Some ''''\<rparr> = tokenA"
    by (simp_all add: testWorld_def missingDirWorld_def testClient_def tokenA_def)
  have s: "SignedString testCodec tokenA = Inr ''jwt.A''"
    by (simp add: testCodec_def tokenA_def)
  have w: "writes testWorld (file' testClient) = WriteOk"
    "writes missingDirWorld (file' testClient) \<noteq> WriteOk"
    by (simp_all add: testWorld_def missingDirWorld_def)
  show ?thesis
    using c a s w
      missing_file_first_run [OF c a(1), of testCodec "''jwt.A''" "Errno ''none''"]
      missing_file_first_run [OF c a(2), of testCodec "''jwt.A''" "Errno ''none''"]
    unfolding Let_def f by simp
qed

text \<open>
  C10. A file that exists and is empty is not treated like a missing file.
  \<open>readFile\<close> returns a non-nil slice of length zero, so \<open>Token\<close> hands it to
  \<open>ParseToken\<close>; when that rejects the empty input, \<open>Token\<close> fails with the parse
  error ("failed to parse token") and nothing is minted: client and world are as before.
\<close>

theorem empty_file_is_parsed:
  assumes "claims c = None" and "nodes w (file' c) = File []" and "ParseToken cd [] = Inl err"
  shows "readFile w (file' c) = Inr (Some []) \<and>
         Token cd c w = Ret (Inl (Wrap err ''failed to parse token''), c, w)"
  using assms by (simp add: Token_def loadCached_def readFile_def)

theorem empty_file_is_parsed_witness:
  "claims testClient = None \<and> nodes (holding []) (file' testClient) = File [] \<and>
   ParseToken testCodec [] = Inl (Errno ''token contains an invalid number of segments'') \<and>
   readFile (holding []) (file' testClient) = Inr (Some []) \<and>
   Token testCodec testClient (holding []) =
     Ret (Inl (Wrap (Errno ''token contains an invalid number of segments'')
                 ''failed to parse token''), testClient, holding [])"
proof -
  have h: "claims testClient = None" "nodes (holding []) (file' testClient) = File []"
    "ParseToken testCodec [] = Inl (Errno ''token contains an invalid number of segments'')"
    by (simp_all add: testClient_def holding_def testCodec_def)
  show ?thesis using h empty_file_is_parsed [OF h] by simp
qed

section \<open>Failed rotations\<close>

text \<open>
  C8 says that after a failed rotation the cache is as it was before the call of
  \<open>Token\<close>, for every state of the manager. It is not when nothing was cached and the
  file holds an expired token: \<open>Token\<close> first caches the record of the file (lines
  86-87), then the rotation fails on a file that cannot be written, and the call
  returns the error with the loaded record and its bytes cached.
\<close>

theorem failed_rotation_after_load:
  "claims testClient = None \<and>
   Token testCodec testClient readOnlyWorld =
     Ret (Inl (WithMessage (Errno ''permission denied'') ''failed to create new token''),
          testClient\<lparr>jwt := Some ''jwt.old'', claims := Some tokenOld\<rparr>,
          readOnlyWorld\<lparr>ticks := 2, drawn := 1\<rparr>) \<and>
   claims (testClient\<lparr>jwt := Some ''jwt.old'', claims := Some tokenOld\<rparr>) \<noteq> claims testClient \<and>
   jwt (testClient\<lparr>jwt := Some ''jwt.old'', claims := Some tokenOld\<rparr>) \<noteq> jwt testClient"
  by (simp add: Token_def loadCached_def readFile_def renew_def persistNewToken_def Now_def
      NewV4_def WriteFile_def testCodec_def testClient_def testWorld_def readOnlyWorld_def
      tokenOld_def)

text \<open>
  C8, amended. When the rotation step of \<open>Token\<close> fails (the encoding of the new
  record fails, or the file cannot be written), \<open>Token\<close> returns the error "failed to
  create new token" and the rotation step leaves the cached claims and bytes exactly as it
  found them: the client after the call is \<open>c1\<close>, the client after the first block of
  \<open>Token\<close>, on which \<open>persistNewToken\<close> has failed. For a manager that had claims
  cached, as every manager that \<open>New\<close> has returned has, \<open>c1\<close> is the client before
  the call; a manager that had nothing cached holds what the call has loaded from the
  file. A retry therefore attempts the same rotation again: when it rotates, the new
  record's sequence number is that of the record cached at the failure plus one, not plus
  two.

  The second hypothesis says that \<open>Token\<close> goes into the rotation step: nothing is
  cached after the first block, or the cached record is expired (\<open>wx\<close> is the world in
  which \<open>persistNewToken\<close> then runs). \<open>k\<close> is the record that
  \<open>persistNewToken\<close> builds there.
\<close>

theorem failed_rotation_keeps_cache:
  assumes "loadCached cd c w = Inr c1"
    and "claims c1 = None \<and> wx = w \<or>
         (\<exists>cl e s p. claims c1 = Some cl \<and> ExpiresAt cl = Some e \<and>
            SequenceNo cl = Some s \<and> Subject cl = Some p \<and>
            e <=s clock_at w (ticks w) \<and> wx = w\<lparr>ticks := Suc (ticks w)\<rparr>)"
  shows "let k0 = \<lparr>IssuedAt = Some (clock_at wx (ticks wx)),
                   ExpiresAt = Some (clock_at wx (ticks wx) + ucast (refresh c1)),
                   Subject = Some (uuid_at wx (drawn wx)),
                   SequenceNo = Some 0, Previous = Some ''''\<rparr>;
             k = (case claims c1 of
                    None \<Rightarrow> k0
                  | Some cl \<Rightarrow> k0\<lparr>SequenceNo := map_option (\<lambda>s. s + 1) (SequenceNo cl),
                                  Previous := Subject cl\<rparr>)
         in (SignedString cd k = Inl err \<or> writes w (file' c) \<noteq> WriteOk \<longrightarrow>
               (\<exists>err' w'. Token cd c w =
                    Ret (Inl (WithMessage err' ''failed to create new token''), c1, w') \<and>
                  persistNewToken cd c1 wx = Ret (Some err', c1, w'))) \<and>
            (claims c \<noteq> None \<longrightarrow> c1 = c) \<and>
            (claims c1 = Some old \<and> SequenceNo old = Some s0 \<and>
             Token cd c1 w2 = Ret (Inr out, c2, w3) \<and> claims c2 \<noteq> claims c1 \<longrightarrow>
               (\<exists>k' s'. claims c2 = Some k' \<and> SequenceNo k' = Some s' \<and> s' = s0 + 1 \<and>
                  (sint s0 < 2 ^ 63 - 1 \<longrightarrow> sint s' = sint s0 + 1)))"
proof -
  note cfg = loadCached_config [OF assms(1)]
  have retry: "claims c1 = Some old \<and> SequenceNo old = Some s0 \<and>
             Token cd c1 w2 = Ret (Inr out, c2, w3) \<and> claims c2 \<noteq> claims c1 \<longrightarrow>
               (\<exists>k' s'. claims c2 = Some k' \<and> SequenceNo k' = Some s' \<and> s' = s0 + 1 \<and>
                  (sint s0 < 2 ^ 63 - 1 \<longrightarrow> sint s' = sint s0 + 1))"
    using Token_rotation_links [of cd c1 w2 out c2 w3 old s0] by (auto simp: sint_succ)
  from assms(2) show ?thesis
  proof (elim disjE conjE exE)
    assume n: "claims c1 = None" and wx: "wx = w"
    have t: "Token cd c w = renew cd c1 w"
      using assms(1) n by (simp add: Token_def)
    show ?thesis
      unfolding Let_def using cfg retry
      by (auto simp: t n wx renew_def persistNewToken_fresh [OF n] Let_def WriteFile_def
          split: sum.splits wplan.splits)
  next
    fix cl e s p
    assume cl: "claims c1 = Some cl" "ExpiresAt cl = Some e" "SequenceNo cl = Some s"
      "Subject cl = Some p" and ex: "e <=s clock_at w (ticks w)"
      and wx: "wx = w\<lparr>ticks := Suc (ticks w)\<rparr>"
    have t: "Token cd c w = renew cd c1 wx"
      using assms(1) cl(1,2) ex wx by (simp add: Token_def Now_def)
    show ?thesis
      unfolding Let_def using cfg retry
      by (auto simp: t cl wx renew_def persistNewToken_cached [OF cl(1,3,4)] Let_def
          WriteFile_def split: sum.splits wplan.splits)
  qed
qed

text \<open>
  The expired record of sequence number 7 is cached and the file is read-only: the
  rotation fails, \<open>Token\<close> returns the error and the client is unchanged. The retry,
  once the file can be written, mints sequence number 8.
\<close>

theorem failed_rotation_keeps_cache_witness:
  "loadCached testCodec clientOld readOnlyWorld = Inr clientOld \<and>
   claims clientOld = Some tokenOld \<and> ExpiresAt tokenOld = Some 110 \<and>
   SequenceNo tokenOld = Some 7 \<and> Subject tokenOld = Some ''old'' \<and>
   (110 :: int64) <=s clock_at readOnlyWorld (ticks readOnlyWorld) \<and>
   writes readOnlyWorld (file' clientOld) \<noteq> WriteOk \<and>
   (\<exists>err' w'. Token testCodec clientOld readOnlyWorld =
        Ret (Inl (WithMessage err' ''failed to create new token''), clientOld, w') \<and>
      persistNewToken testCodec clientOld (readOnlyWorld\<lparr>ticks := Suc (ticks readOnlyWorld)\<rparr>) =
        Ret (Some err', clientOld, w')) \<and>
   claims clientOld \<noteq> None \<and>
   Token testCodec clientOld testWorld =
     Ret (Inr (Some ''jwt.A''), clientOld\<lparr>claims := Some tokenNext, jwt := Some ''jwt.A''\<rparr>,
          afterMint\<lparr>ticks := 2\<rparr>) \<and>
   claims (clientOld\<lparr>claims := Some tokenNext, jwt := Some ''jwt.A''\<rparr>) \<noteq> claims clientOld \<and>
   sint (7 :: int64) < 2 ^ 63 - 1 \<and>
   (\<exists>k' s'. claims (clientOld\<lparr>claims := Some tokenNext, jwt := Some ''jwt.A''\<rparr>) = Some k' \<and>
      SequenceNo k' = Some s' \<and> sint s' = 8)"
proof -
  have l: "loadCached testCodec clientOld readOnlyWorld = Inr clientOld"
    by (simp add: loadCached_def clientOld_def)
  have a: "claims clientOld = Some tokenOld" "ExpiresAt tokenOld = Some 110"
    "SequenceNo tokenOld = Some 7" "Subject tokenOld = Some ''old''"
    "(110 :: int64) <=s clock_at readOnlyWorld (ticks readOnlyWorld)"
    by (simp_all add: clientOld_def tokenOld_def readOnlyWorld_def testWorld_def)
  have st: "claims clientOld = None \<and>
        readOnlyWorld\<lparr>ticks := Suc (ticks readOnlyWorld)\<rparr> = readOnlyWorld \<or>
      (\<exists>cl e s p. claims clientOld = Some cl \<and> ExpiresAt cl = Some e \<and>
         SequenceNo cl = Some s \<and> Subject cl = Some p \<and>
         e <=s clock_at readOnlyWorld (ticks readOnlyWorld) \<and>
         readOnlyWorld\<lparr>ticks := Suc (ticks readOnlyWorld)\<rparr> =
           readOnlyWorld\<lparr>ticks := Suc (ticks readOnlyWorld)\<rparr>)"
    using a by blast
  have wr: "writes readOnlyWorld (file' clientOld) \<noteq> WriteOk"
    by (simp add: readOnlyWorld_def)
  have r: "Token testCodec clientOld testWorld =
     Ret (Inr (Some ''jwt.A''), clientOld\<lparr>claims := Some tokenNext, jwt := Some ''jwt.A''\<rparr>,
          afterMint\<lparr>ticks := 2\<rparr>)"
    by (simp add: Token_def loadCached_def renew_def persistNewToken_def Now_def NewV4_def
        WriteFile_def testCodec_def clientOld_def testClient_def testWorld_def afterMint_def
        tokenOld_def tokenNext_def)
  have d: "claims (clientOld\<lparr>claims := Some tokenNext, jwt := Some ''jwt.A''\<rparr>)
             \<noteq> claims clientOld"
    "claims clientOld \<noteq> None" "sint (7 :: int64) < 2 ^ 63 - 1"
    by (simp_all add: clientOld_def tokenOld_def tokenNext_def)
  note T = failed_rotation_keeps_cache [OF l st, where old = tokenOld
      and ?s0.0 = 7 and ?w2.0 = testWorld and out = "Some ''jwt.A''"
      and ?c2.0 = "clientOld\<lparr>claims := Some tokenNext, jwt := Some ''jwt.A''\<rparr>"
      and ?w3.0 = "afterMint\<lparr>ticks := 2\<rparr>" and err = "Errno ''none''", unfolded Let_def]
  have f: "\<exists>err' w'. Token testCodec clientOld readOnlyWorld =
        Ret (Inl (WithMessage err' ''failed to create new token''), clientOld, w') \<and>
      persistNewToken testCodec clientOld (readOnlyWorld\<lparr>ticks := Suc (ticks readOnlyWorld)\<rparr>) =
        Ret (Some err', clientOld, w')"
    using T wr by blast
  have s: "\<exists>k' s'. claims (clientOld\<lparr>claims := Some tokenNext, jwt := Some ''jwt.A''\<rparr>) = Some k' \<and>
      SequenceNo k' = Some s' \<and> sint s' = 8"
    using T a(1,3) r d by auto
  show ?thesis using l a wr f r d s by simp
qed

section \<open>Expiry after issue\<close>

text \<open>
  C9 says that \<open>ExpiresAt\<close> is strictly greater than \<open>IssuedAt\<close> in every record the
  manager mints or holds. \<open>New\<close> takes any \<open>uint\<close> as refresh interval and checks
  nothing: with \<open>refresh = 0\<close> the first record expires at the second it is issued,
  and with \<open>refresh = 2 ^ 63\<close> the \<open>int64\<close> addition of line 124 wraps and the record
  expires before it is issued.
\<close>

theorem zero_refresh_expires_at_issue:
  "newWithClock testCodec ''newtokenfile'' 0 testWorld =
     Ret (Inr \<lparr>file' = ''newtokenfile'', refresh = 0,
               claims = Some \<lparr>IssuedAt = Some 1000, ExpiresAt = Some 1000, Subject = Some ''A'',
                              SequenceNo = Some 0, Previous = Some ''''\<rparr>,
               jwt = Some ''jwt.A''\<rparr>, afterMint) \<and>
   \<not> (1000 :: int64) <s 1000 \<and>
   newWithClock testCodec ''newtokenfile'' 9223372036854775808 testWorld =
     Ret (Inr \<lparr>file' = ''newtokenfile'', refresh = 9223372036854775808,
               claims = Some \<lparr>IssuedAt = Some 1000, ExpiresAt = Some (- 9223372036854774808),
                              Subject = Some ''A'', SequenceNo = Some 0, Previous = Some ''''\<rparr>,
               jwt = Some ''jwt.A''\<rparr>, afterMint) \<and>
   \<not> (1000 :: int64) <s - 9223372036854774808"
  by (simp add: newWithClock_def Token_def loadCached_def readFile_def renew_def
      persistNewToken_def Now_def NewV4_def WriteFile_def testCodec_def testWorld_def
      afterMint_def)

text \<open>
  C9, amended. Every record that the manager mints with a refresh interval \<open>r > 0\<close>
  at a clock reading \<open>now\<close> with \<open>now + r < 2 ^ 63\<close> has \<open>ExpiresAt\<close> strictly
  greater than \<open>IssuedAt\<close>, namely \<open>IssuedAt + r\<close>.
\<close>

theorem minted_expiry_after_issue:
  assumes "persistNewToken cd c w = Ret (None, c', w')" and "0 < refresh c"
    and "sint (clock_at w (ticks w)) + uint (refresh c) < 2 ^ 63"
  shows "\<exists>k i e. claims c' = Some k \<and> IssuedAt k = Some i \<and> ExpiresAt k = Some e \<and>
           i <s e \<and> sint e = sint i + uint (refresh c)"
proof -
  obtain k where k: "claims c' = Some k"
      "IssuedAt k = Some (clock_at w (ticks w))"
      "ExpiresAt k = Some (clock_at w (ticks w) + ucast (refresh c))"
    using persistNewToken_success [OF assms(1)] by blast
  have e: "sint (clock_at w (ticks w) + refresh c) =
           sint (clock_at w (ticks w)) + uint (refresh c)"
    using assms(3) by (rule sint_add_uint)
  have "0 < uint (refresh c)" using assms(2) by (simp add: word_less_def)
  with e have "clock_at w (ticks w) <s clock_at w (ticks w) + refresh c"
    by (simp add: word_sless_alt)
  with k e show ?thesis by simp
qed

theorem minted_expiry_after_issue_witness:
  "persistNewToken testCodec testClient testWorld = Ret (None, clientA, afterMint) \<and>
   0 < refresh testClient \<and>
   sint (clock_at testWorld (ticks testWorld)) + uint (refresh testClient) < 2 ^ 63 \<and>
   (\<exists>k i e. claims clientA = Some k \<and> IssuedAt k = Some i \<and> ExpiresAt k = Some e \<and>
      i <s e \<and> sint e = sint i + uint (refresh testClient))"
proof -
  have h: "persistNewToken testCodec testClient testWorld = Ret (None, clientA, afterMint)"
    by (simp add: persistNewToken_def Now_def NewV4_def WriteFile_def testCodec_def
        clientA_def afterMint_def testClient_def testWorld_def tokenA_def)
  have a: "0 < refresh testClient"
    "sint (clock_at testWorld (ticks testWorld)) + uint (refresh testClient) < 2 ^ 63"
    by (simp_all add: testClient_def testWorld_def)
  show ?thesis using h a minted_expiry_after_issue [OF h a] by simp
qed

end
